theory Spec2Isabelle
  imports Main "HOL-Library.Sublist"
begin

section \<open>The WebSocket action bar\<close>

text \<open>
  A shallow embedding of \<^verbatim>\<open>packages/insomnia/src/ui/components/websockets/action-bar.tsx\<close>:
  the \<^verbatim>\<open>WebSocketActionBar\<close> component, its \<^verbatim>\<open>connect\<close> and \<^verbatim>\<open>handleSubmit\<close>
  callbacks and the event handlers it installs. The component computes nothing by itself:
  everything it does is a call to a collaborator. The model therefore keeps a trace of
  these calls in an explicit world, and the properties are statements about the trace.
\<close>

subsection \<open>Data model\<close>

text \<open>
  Modelled from the spec: the types \<^verbatim>\<open>WebSocketRequest\<close> (models/websocket-request),
  \<^verbatim>\<open>ConnectActionParams\<close> (ui/routes/request) and the cookie jar (models) are declared
  outside the component. The component reads the fields \<^verbatim>\<open>_id\<close>, \<^verbatim>\<open>url\<close>,
  \<^verbatim>\<open>headers\<close>, \<^verbatim>\<open>authentication\<close> and \<^verbatim>\<open>parameters\<close> of a request and the field
  \<^verbatim>\<open>disabled\<close> of a parameter; the spec adds \<^verbatim>\<open>suppressUserAgent\<close> to the request
  and \<^verbatim>\<open>key\<close> and \<^verbatim>\<open>value\<close> (here \<open>val\<close>) to a parameter, and calls headers an
  ordered list of entries, authentication "settings" and the cookie jar a collection of cookies keyed by the
  workspace. Headers, authentication settings and cookies are kept as name/value pairs.
\<close>

record RequestParameter =
  key :: string
  val :: string
  disabled :: bool

type_synonym RequestHeader = "string \<times> string"

type_synonym RequestAuthentication = "(string \<times> string) list"

record CookieJar =
  parentId :: string
  cookies :: "(string \<times> string) list"

record WebSocketRequest =
  id' :: string
  url :: string
  headers :: "RequestHeader list"
  authentication :: RequestAuthentication
  parameters :: "RequestParameter list"
  suppressUserAgent :: bool

text \<open>
  The object literal that \<^verbatim>\<open>handleSubmit\<close> hands to the interpolation step (lines 98 to
  104). It has no \<^verbatim>\<open>suppressUserAgent\<close> field.
\<close>

record Payload =
  url :: string
  headers :: "RequestHeader list"
  authentication :: RequestAuthentication
  parameters :: "RequestParameter list"
  workspaceCookieJar :: CookieJar

text \<open>
  What the interpolation step returns when it succeeds. \<^verbatim>\<open>handleSubmit\<close> reads the five
  fields of the payload from it and also \<^verbatim>\<open>rendered.suppressUserAgent\<close> (line 111); a field
  that is absent from a JavaScript object reads as \<^verbatim>\<open>undefined\<close>, which is \<open>None\<close> here.
\<close>

record Rendered = Payload +
  suppressUserAgent :: "bool option"

record ConnectActionParams =
  url :: string
  headers :: "RequestHeader list"
  authentication :: RequestAuthentication
  cookieJar :: CookieJar
  suppressUserAgent :: "bool option"

datatype RenderError = Unresolved string | Malformed

text \<open>The props of the component other than the \<^verbatim>\<open>request\<close> object and the
  \<^verbatim>\<open>onChange\<close> callback, which live in the world below.\<close>

record ActionBarProps =
  environmentId :: string
  defaultValue :: string
  readyState :: bool

text \<open>The route parameters read with \<^verbatim>\<open>useParams\<close> (line 76).\<close>

record RouteParams =
  organizationId :: string
  projectId :: string
  workspaceId :: string
  requestId :: string

subsection \<open>The world: collaborator calls as a trace\<close>

text \<open>
  One constructor for each call that leaves the component:
  \<^item> \<open>WebSocketClose rid\<close> is \<^verbatim>\<open>window.main.webSocket.close({ requestId: rid })\<close>, the close
    command;
  \<^item> \<open>FetcherSubmit action ps\<close> is \<^verbatim>\<open>fetcher.submit(JSON.stringify(ps), { action, ... })\<close>,
    the connect command;
  \<^item> \<open>Interpolate r env p\<close> is a call of
    \<^verbatim>\<open>tryToInterpolateRequestOrShowRenderErrorModal({ request: r, environmentId: env, payload: p })\<close>;
  \<^item> \<open>ShowRenderErrorModal e\<close> is the error report of a failed interpolation;
  \<^item> \<open>OnChange t\<close> is a call \<^verbatim>\<open>onChange(t)\<close> of the owner's callback.
\<close>

datatype Event =
    WebSocketClose string
  | FetcherSubmit string ConnectActionParams
  | Interpolate WebSocketRequest string Payload
  | ShowRenderErrorModal RenderError
  | OnChange string

text \<open>
  The world holds what the component shares with its surroundings: the stored request
  object that the \<^verbatim>\<open>request\<close> prop refers to, the text of the URL editor, the cookie jars
  of the database by parent identifier, and the trace.
\<close>

record World =
  request :: WebSocketRequest
  urlText :: string
  cookieJars :: "string \<rightharpoonup> CookieJar"
  trace :: "Event list"

definition emit :: "Event \<Rightarrow> World \<Rightarrow> World" where
  "emit e w = w\<lparr>trace := trace w @ [e]\<rparr>"

text \<open>The events that one handler added to the trace.\<close>

definition issued :: "World \<Rightarrow> World \<Rightarrow> Event list" where
  "issued w w' = drop (length (trace w)) (trace w')"

text \<open>The connect commands, the close commands, the interpolation payloads and the error
  reports of a list of events, in order.\<close>

fun connectCommands :: "Event list \<Rightarrow> ConnectActionParams list" where
  "connectCommands [] = []"
| "connectCommands (FetcherSubmit a ps # es) = ps # connectCommands es"
| "connectCommands (e # es) = connectCommands es"

fun closeCommands :: "Event list \<Rightarrow> string list" where
  "closeCommands [] = []"
| "closeCommands (WebSocketClose rid # es) = rid # closeCommands es"
| "closeCommands (e # es) = closeCommands es"

fun interpolations :: "Event list \<Rightarrow> Payload list" where
  "interpolations [] = []"
| "interpolations (Interpolate r env p # es) = p # interpolations es"
| "interpolations (e # es) = interpolations es"

fun errorReports :: "Event list \<Rightarrow> RenderError list" where
  "errorReports [] = []"
| "errorReports (ShowRenderErrorModal err # es) = err # errorReports es"
| "errorReports (e # es) = errorReports es"

text \<open>The query string of a URL: what follows its first question mark.\<close>

definition queryStringOf :: "string \<Rightarrow> string" where
  "queryStringOf u = drop 1 (dropWhile (\<lambda>c. c \<noteq> CHR ''?'') u)"

subsection \<open>Collaborators\<close>

text \<open>
  The template engine and the two query-string helpers of \<^verbatim>\<open>utils/url/querystring\<close> are
  not part of the component. The component is modelled for every choice of them.
\<close>

record Collaborators =
  render :: "WebSocketRequest \<Rightarrow> string \<Rightarrow> Payload \<Rightarrow> RenderError + Rendered"
  joinUrlAndQueryString :: "string \<Rightarrow> string \<Rightarrow> string"
  buildQueryStringFromParams :: "RequestParameter list \<Rightarrow> string"

text \<open>
  Modelled from the spec: \<^verbatim>\<open>models.cookieJar.getOrCreateForParentId\<close> is not under the
  component's source. The spec calls it an idempotent fetch-or-create keyed by the workspace
  identifier: the stored jar when there is one, otherwise a new jar that is stored.
\<close>

definition getOrCreateForParentId :: "string \<Rightarrow> World \<Rightarrow> CookieJar \<times> World" where
  "getOrCreateForParentId pid w =
     (case cookieJars w pid of
        Some jar \<Rightarrow> (jar, w)
      | None \<Rightarrow>
          (let jar = \<lparr>parentId = pid, cookies = []\<rparr>
           in (jar, w\<lparr>cookieJars := (cookieJars w)(pid \<mapsto> jar)\<rparr>)))"

text \<open>
  Modelled from the spec: \<^verbatim>\<open>tryToInterpolateRequestOrShowRenderErrorModal\<close>
  (utils/try-interpolate) is not under the component's source. The spec gives it as
  \<^verbatim>\<open>interpolate(request, environmentId, payload) \<rightarrow> resolved | renderErrorReport\<close>, a pure
  resolution of template expressions whose only side effect is to show an error modal on
  failure. A failure returns nothing (line 106 tests the result for truthiness).
\<close>

definition tryToInterpolateRequestOrShowRenderErrorModal ::
  "Collaborators \<Rightarrow> WebSocketRequest \<Rightarrow> string \<Rightarrow> Payload \<Rightarrow> World \<Rightarrow> Rendered option \<times> World" where
  "tryToInterpolateRequestOrShowRenderErrorModal c r env payload w =
     (let w1 = emit (Interpolate r env payload) w
      in case render c r env payload of
           Inl err \<Rightarrow> (None, emit (ShowRenderErrorModal err) w1)
         | Inr rendered \<Rightarrow> (Some rendered, w1))"

subsection \<open>The component\<close>

text \<open>Lines 78 to 85: \<^verbatim>\<open>connect\<close> submits the parameters to the connect route.\<close>

definition connectAction :: "RouteParams \<Rightarrow> string" where
  "connectAction rp =
     ''/organization/'' @ organizationId rp @ ''/project/'' @ projectId rp
     @ ''/workspace/'' @ workspaceId rp @ ''/debug/request/'' @ requestId rp @ ''/connect''"

definition connect :: "RouteParams \<Rightarrow> ConnectActionParams \<Rightarrow> World \<Rightarrow> World" where
  "connect rp connectParams w = emit (FetcherSubmit (connectAction rp) connectParams) w"

text \<open>The object literal of lines 98 to 104: the payload of the interpolation step.\<close>

definition payloadOf :: "WebSocketRequest \<Rightarrow> CookieJar \<Rightarrow> Payload" where
  "payloadOf r jar =
     \<lparr>Payload.url = WebSocketRequest.url r,
      Payload.headers = WebSocketRequest.headers r,
      Payload.authentication = WebSocketRequest.authentication r,
      Payload.parameters = filter (\<lambda>p. \<not> disabled p) (WebSocketRequest.parameters r),
      workspaceCookieJar = jar\<rparr>"

text \<open>The object literal of lines 106 to 112: the parameters of the connect command.\<close>

definition connectParamsOf :: "Collaborators \<Rightarrow> Rendered \<Rightarrow> ConnectActionParams" where
  "connectParamsOf c rendered =
     \<lparr>ConnectActionParams.url =
        joinUrlAndQueryString c (Payload.url rendered)
          (buildQueryStringFromParams c (Payload.parameters rendered)),
      headers = Payload.headers rendered,
      authentication = Payload.authentication rendered,
      cookieJar = workspaceCookieJar rendered,
      suppressUserAgent = Rendered.suppressUserAgent rendered\<rparr>"

text \<open>Lines 87 to 114: \<^verbatim>\<open>handleSubmit\<close>, with \<^verbatim>\<open>isOpen = readyState\<close> (line 69).\<close>

definition handleSubmit :: "Collaborators \<Rightarrow> RouteParams \<Rightarrow> ActionBarProps \<Rightarrow> World \<Rightarrow> World" where
  "handleSubmit c rp props w =
     (if readyState props then emit (WebSocketClose (id' (request w))) w
      else
        (case getOrCreateForParentId (workspaceId rp) w of
           (jar, w1) \<Rightarrow>
             (case tryToInterpolateRequestOrShowRenderErrorModal c (request w1) (environmentId props)
                     (payloadOf (request w1) jar) w1 of
                (None, w2) \<Rightarrow> w2
              | (Some rendered, w2) \<Rightarrow> connect rp (connectParamsOf c rendered) w2)))"

text \<open>The events of one call of \<^verbatim>\<open>handleSubmit\<close>.\<close>

definition submitEvents :: "Collaborators \<Rightarrow> RouteParams \<Rightarrow> ActionBarProps \<Rightarrow> World \<Rightarrow> Event list" where
  "submitEvents c rp props w = issued w (handleSubmit c rp props w)"

text \<open>The jar that \<^verbatim>\<open>handleSubmit\<close> fetches or creates (line 93).\<close>

definition fetchedJar :: "RouteParams \<Rightarrow> World \<Rightarrow> CookieJar" where
  "fetchedJar rp w = fst (getOrCreateForParentId (workspaceId rp) w)"

text \<open>
  Modelled from the spec: \<^verbatim>\<open>OneLineEditor\<close> (ui/components/codemirror/one-line-editor) is
  not under the component's source. The spec has \<^verbatim>\<open>onUrlTextChange(newText)\<close> invoked on
  every edit of the URL field, forwarding the raw text to the owner through
  \<^verbatim>\<open>onChange\<close>. The component passes the owner's \<^verbatim>\<open>onChange\<close> to the editor as it is
  (line 162), so an edit makes the new text the editor's text and calls the owner.
\<close>

definition onUrlTextChange :: "string \<Rightarrow> World \<Rightarrow> World" where
  "onUrlTextChange newText w = emit (OnChange newText) (w\<lparr>urlText := newText\<rparr>)"

text \<open>
  What the component renders (lines 135 to 173), as far as it depends on the props: the
  icon or the status badge, the editor's props and the button.
\<close>

record OneLineEditorProps =
  readOnly :: bool
  placeholder :: string
  defaultValue :: string

datatype SubmitControl = ConnectButton | DisconnectButton string

record View =
  showWebSocketIcon :: bool
  showConnectionStatus :: bool
  formAriaDisabled :: bool
  editor :: OneLineEditorProps
  control :: SubmitControl

definition WebSocketActionBar :: "ActionBarProps \<Rightarrow> World \<Rightarrow> View" where
  "WebSocketActionBar props w =
     (let isOpen = readyState props; isConnectingOrClosed = \<not> readyState props
      in \<lparr>showWebSocketIcon = \<not> isOpen,
          showConnectionStatus = isOpen,
          formAriaDisabled = isOpen,
          editor = \<lparr>readOnly = readyState props,
                    placeholder = ''wss://example.com/chat'',
                    defaultValue = ActionBarProps.defaultValue props\<rparr>,
          control = (if isConnectingOrClosed then ConnectButton
                     else DisconnectButton (id' (request w)))\<rparr>)"

subsection \<open>The helpers, modelled from the spec\<close>

text \<open>
  Modelled from the spec: the template engine behind
  \<^verbatim>\<open>tryToInterpolateRequestOrShowRenderErrorModal\<close> is not under the component's source.
  The spec calls interpolation the resolving of template expressions embedded in request
  fields against environment variables, failing on an unresolved or malformed expression,
  and its example resolves \<^verbatim>\<open>{{host}}\<close>. A tag is \<^verbatim>\<open>{{name}}\<close>; the second argument is
  the name read so far inside an open tag.
\<close>

fun renderTemplate :: "(string \<rightharpoonup> string) \<Rightarrow> string option \<Rightarrow> string \<Rightarrow> RenderError + string" where
  "renderTemplate env None [] = Inr []"
| "renderTemplate env None [c] = Inr [c]"
| "renderTemplate env None (c # d # cs) =
     (if c = CHR ''{'' \<and> d = CHR ''{'' then renderTemplate env (Some []) cs
      else map_sum id ((#) c) (renderTemplate env None (d # cs)))"
| "renderTemplate env (Some tag) (c # d # cs) =
     (if c = CHR ''}'' \<and> d = CHR ''}'' then
        (case env tag of
           None \<Rightarrow> Inl (Unresolved tag)
         | Some v \<Rightarrow> map_sum id ((@) v) (renderTemplate env None cs))
      else renderTemplate env (Some (tag @ [c])) (d # cs))"
| "renderTemplate env (Some tag) cs = Inl Malformed"

definition renderString :: "(string \<rightharpoonup> string) \<Rightarrow> string \<Rightarrow> RenderError + string" where
  "renderString env s = renderTemplate env None s"

fun renderAll :: "('a \<Rightarrow> RenderError + 'b) \<Rightarrow> 'a list \<Rightarrow> RenderError + 'b list" where
  "renderAll f [] = Inr []"
| "renderAll f (x # xs) =
     (case f x of
        Inl e \<Rightarrow> Inl e
      | Inr y \<Rightarrow> map_sum id ((#) y) (renderAll f xs))"

definition renderPair :: "(string \<rightharpoonup> string) \<Rightarrow> string \<times> string \<Rightarrow> RenderError + string \<times> string" where
  "renderPair env nv =
     (case renderString env (fst nv) of
        Inl e \<Rightarrow> Inl e
      | Inr n \<Rightarrow> map_sum id (Pair n) (renderString env (snd nv)))"

definition renderParameter :: "(string \<rightharpoonup> string) \<Rightarrow> RequestParameter \<Rightarrow> RenderError + RequestParameter" where
  "renderParameter env p =
     (case renderPair env (key p, val p) of
        Inl e \<Rightarrow> Inl e
      | Inr kv \<Rightarrow> Inr \<lparr>key = fst kv, val = snd kv, disabled = disabled p\<rparr>)"

text \<open>
  The rendered copy of a payload: every string of the URL, the headers, the authentication
  settings, the parameters and the cookies is resolved (the comment at line 92: "Render any
  nunjucks tags in the url/headers/authentication settings/cookies"). The payload has no
  \<^verbatim>\<open>suppressUserAgent\<close>, so the copy has none either.
\<close>

definition renderPayload :: "(string \<rightharpoonup> string) \<Rightarrow> Payload \<Rightarrow> RenderError + Rendered" where
  "renderPayload env p =
     (case renderString env (Payload.url p) of Inl e \<Rightarrow> Inl e | Inr u \<Rightarrow>
      case renderAll (renderPair env) (Payload.headers p) of Inl e \<Rightarrow> Inl e | Inr hs \<Rightarrow>
      case renderAll (renderPair env) (Payload.authentication p) of Inl e \<Rightarrow> Inl e | Inr au \<Rightarrow>
      case renderAll (renderParameter env) (Payload.parameters p) of Inl e \<Rightarrow> Inl e | Inr ps \<Rightarrow>
      case renderAll (renderPair env) (cookies (workspaceCookieJar p)) of Inl e \<Rightarrow> Inl e | Inr cs \<Rightarrow>
        Inr \<lparr>Payload.url = u, Payload.headers = hs, Payload.authentication = au,
             Payload.parameters = ps,
             workspaceCookieJar = (workspaceCookieJar p)\<lparr>cookies := cs\<rparr>,
             Rendered.suppressUserAgent = None\<rparr>)"

text \<open>
  Modelled from the spec: \<^verbatim>\<open>buildQueryStringFromParams\<close> and \<^verbatim>\<open>joinUrlAndQueryString\<close>
  (utils/url/querystring) are not under the component's source. The spec calls them pure
  string composition and gives one example, \<^verbatim>\<open>wss://example.com/chat\<close> with the parameter
  \<^verbatim>\<open>id = 1\<close> giving \<^verbatim>\<open>wss://example.com/chat?id=1\<close>. Parameters are written
  \<^verbatim>\<open>key=value\<close> and separated by \<^verbatim>\<open>&\<close>; an empty query string is taken to leave the
  URL as it is.
\<close>

fun joinWith :: "string \<Rightarrow> string list \<Rightarrow> string" where
  "joinWith sep [] = []"
| "joinWith sep [x] = x"
| "joinWith sep (x # y # ys) = x @ sep @ joinWith sep (y # ys)"

definition specBuildQueryStringFromParams :: "RequestParameter list \<Rightarrow> string" where
  "specBuildQueryStringFromParams ps = joinWith ''&'' (map (\<lambda>p. key p @ ''='' @ val p) ps)"

definition specJoinUrlAndQueryString :: "string \<Rightarrow> string \<Rightarrow> string" where
  "specJoinUrlAndQueryString u qs = (if qs = [] then u else u @ ''?'' @ qs)"

text \<open>The collaborators of the spec, over the environments \<open>envs\<close> by identifier.\<close>

definition specCollaborators :: "(string \<Rightarrow> (string \<rightharpoonup> string)) \<Rightarrow> Collaborators" where
  "specCollaborators envs =
     \<lparr>render = (\<lambda>r env p. renderPayload (envs env) p),
      joinUrlAndQueryString = specJoinUrlAndQueryString,
      buildQueryStringFromParams = specBuildQueryStringFromParams\<rparr>"

subsection \<open>Concrete inputs\<close>

text \<open>The example of the spec: the URL \<^verbatim>\<open>wss://{{host}}/chat\<close>, an enabled parameter
  \<^verbatim>\<open>id\<close>, a disabled parameter \<^verbatim>\<open>dbg\<close>, and an environment that resolves \<^verbatim>\<open>host\<close>.\<close>

definition exampleEnvs :: "string \<Rightarrow> (string \<rightharpoonup> string)" where
  "exampleEnvs env = (if env = ''env_1'' then [''host'' \<mapsto> ''example.com''] else Map.empty)"

definition exampleRequest :: WebSocketRequest where
  "exampleRequest =
     \<lparr>id' = ''ws-req_1'', WebSocketRequest.url = ''wss://{{host}}/chat'',
      WebSocketRequest.headers = [], WebSocketRequest.authentication = [],
      WebSocketRequest.parameters = [\<lparr>key = ''id'', val = ''1'', disabled = False\<rparr>,
                    \<lparr>key = ''dbg'', val = ''1'', disabled = True\<rparr>],
      WebSocketRequest.suppressUserAgent = True\<rparr>"

definition exampleRoute :: RouteParams where
  "exampleRoute =
     \<lparr>organizationId = ''org_1'', projectId = ''proj_1'', workspaceId = ''wrk_1'',
      requestId = ''ws-req_1''\<rparr>"

definition exampleProps :: "string \<Rightarrow> bool \<Rightarrow> ActionBarProps" where
  "exampleProps env isOpen =
     \<lparr>environmentId = env, ActionBarProps.defaultValue = ''wss://{{host}}/chat'',
      readyState = isOpen\<rparr>"

definition exampleWorld :: World where
  "exampleWorld =
     \<lparr>request = exampleRequest, urlText = ''wss://{{host}}/chat'', cookieJars = Map.empty,
      trace = []\<rparr>"

text \<open>A request whose disabled parameter has the key of an enabled one.\<close>

definition sameKeyWorld :: World where
  "sameKeyWorld =
     exampleWorld\<lparr>request := exampleRequest\<lparr>WebSocketRequest.parameters :=
       [\<lparr>key = ''id'', val = ''1'', disabled = False\<rparr>,
        \<lparr>key = ''id'', val = ''2'', disabled = True\<rparr>]\<rparr>\<rparr>"

text \<open>A workspace whose stored jar has a cookie with a template tag in its value.\<close>

definition templatedJar :: CookieJar where
  "templatedJar = \<lparr>parentId = ''wrk_1'', cookies = [(''origin'', ''{{host}}'')]\<rparr>"

definition templatedJarWorld :: World where
  "templatedJarWorld = exampleWorld\<lparr>cookieJars := [''wrk_1'' \<mapsto> templatedJar]\<rparr>"

text \<open>The jar created for the workspace of the example, and the rendered copy of its
  payload.\<close>

definition exampleJar :: CookieJar where
  "exampleJar = \<lparr>parentId = ''wrk_1'', cookies = []\<rparr>"

definition exampleRendered :: Rendered where
  "exampleRendered =
     \<lparr>Payload.url = ''wss://example.com/chat'', Payload.headers = [],
      Payload.authentication = [],
      Payload.parameters = [\<lparr>key = ''id'', val = ''1'', disabled = False\<rparr>],
      workspaceCookieJar = exampleJar, Rendered.suppressUserAgent = None\<rparr>"

text \<open>The stored jar above after the tag in its cookie is resolved.\<close>

definition renderedTemplatedJar :: CookieJar where
  "renderedTemplatedJar = \<lparr>parentId = ''wrk_1'', cookies = [(''origin'', ''example.com'')]\<rparr>"

section \<open>Properties\<close>

subsection \<open>What one submit adds to the trace\<close>

lemma trace_emit: "trace (emit e w) = trace w @ [e]"
  by (simp add: emit_def)

lemma request_emit: "request (emit e w) = request w"
  by (simp add: emit_def)

lemma urlText_emit: "urlText (emit e w) = urlText w"
  by (simp add: emit_def)

lemma issued_append: "trace w' = trace w @ es \<Longrightarrow> issued w w' = es"
  by (simp add: issued_def)

lemma getOrCreateForParentId_frame:
  "trace (snd (getOrCreateForParentId pid w)) = trace w
   \<and> request (snd (getOrCreateForParentId pid w)) = request w
   \<and> urlText (snd (getOrCreateForParentId pid w)) = urlText w"
  by (simp add: getOrCreateForParentId_def Let_def split: option.splits)

lemma handleSubmit_closed:
  assumes closed: "\<not> readyState props"
  shows "handleSubmit c rp props w =
    (let w1 = snd (getOrCreateForParentId (workspaceId rp) w);
         payload = payloadOf (request w) (fetchedJar rp w);
         w2 = emit (Interpolate (request w) (environmentId props) payload) w1
     in case render c (request w) (environmentId props) payload of
          Inl err \<Rightarrow> emit (ShowRenderErrorModal err) w2
        | Inr rendered \<Rightarrow> emit (FetcherSubmit (connectAction rp) (connectParamsOf c rendered)) w2)"
proof -
  obtain jar w1 where fetch: "getOrCreateForParentId (workspaceId rp) w = (jar, w1)"
    by (cases "getOrCreateForParentId (workspaceId rp) w")
  have same: "request w1 = request w"
    using getOrCreateForParentId_frame [of "workspaceId rp" w] fetch by simp
  show ?thesis
    using closed
    by (simp add: handleSubmit_def fetchedJar_def fetch same connect_def Let_def
        tryToInterpolateRequestOrShowRenderErrorModal_def split: sum.splits)
qed

lemma handleSubmit_trace:
  "trace (handleSubmit c rp props w) = trace w @
    (if readyState props then [WebSocketClose (id' (request w))]
     else Interpolate (request w) (environmentId props) (payloadOf (request w) (fetchedJar rp w)) #
       (case render c (request w) (environmentId props) (payloadOf (request w) (fetchedJar rp w)) of
          Inl err \<Rightarrow> [ShowRenderErrorModal err]
        | Inr rendered \<Rightarrow> [FetcherSubmit (connectAction rp) (connectParamsOf c rendered)]))"
proof (cases "readyState props")
  case True
  then show ?thesis by (simp add: handleSubmit_def trace_emit)
next
  case False
  then show ?thesis
    using getOrCreateForParentId_frame [of "workspaceId rp" w]
    by (simp add: handleSubmit_closed Let_def trace_emit split: sum.splits)
qed

lemma submitEvents_eq:
  "submitEvents c rp props w =
    (if readyState props then [WebSocketClose (id' (request w))]
     else Interpolate (request w) (environmentId props) (payloadOf (request w) (fetchedJar rp w)) #
       (case render c (request w) (environmentId props) (payloadOf (request w) (fetchedJar rp w)) of
          Inl err \<Rightarrow> [ShowRenderErrorModal err]
        | Inr rendered \<Rightarrow> [FetcherSubmit (connectAction rp) (connectParamsOf c rendered)]))"
  unfolding submitEvents_def by (rule issued_append) (rule handleSubmit_trace)

lemma handleSubmit_frame:
  "request (handleSubmit c rp props w) = request w \<and> urlText (handleSubmit c rp props w) = urlText w"
proof (cases "readyState props")
  case True
  then show ?thesis by (simp add: handleSubmit_def request_emit urlText_emit)
next
  case False
  then show ?thesis
    using getOrCreateForParentId_frame [of "workspaceId rp" w]
    by (simp add: handleSubmit_closed Let_def request_emit urlText_emit split: sum.splits)
qed

subsection \<open>The example of the spec, evaluated\<close>

lemma example_host: "renderString (exampleEnvs ''env_1'') ''wss://{{host}}/chat'' = Inr ''wss://example.com/chat''"
  by (simp add: renderString_def exampleEnvs_def)

lemma example_plain: "renderString env ''id'' = Inr ''id'' \<and> renderString env ''1'' = Inr ''1''"
  by (simp add: renderString_def)

lemma example_fetchedJar: "fetchedJar exampleRoute exampleWorld = exampleJar"
  by (simp add: fetchedJar_def getOrCreateForParentId_def exampleRoute_def exampleWorld_def exampleJar_def Let_def)

lemma example_render:
  "render (specCollaborators exampleEnvs) (request exampleWorld) ''env_1''
     (payloadOf (request exampleWorld) exampleJar) = Inr exampleRendered"
  by (simp add: specCollaborators_def renderPayload_def payloadOf_def exampleWorld_def
      exampleRequest_def exampleJar_def exampleRendered_def renderParameter_def renderPair_def
      example_host example_plain)

lemma example_url:
  "ConnectActionParams.url (connectParamsOf (specCollaborators exampleEnvs) exampleRendered)
     = ''wss://example.com/chat?id=1''"
  by (simp add: connectParamsOf_def specCollaborators_def exampleRendered_def
      specJoinUrlAndQueryString_def specBuildQueryStringFromParams_def)

lemma example_id: "id' (request exampleWorld) = ''ws-req_1''"
  by (simp add: exampleWorld_def exampleRequest_def)

lemma example_unresolved:
  "render (specCollaborators exampleEnvs) (request exampleWorld) ''env_2''
     (payloadOf (request exampleWorld) exampleJar) = Inl (Unresolved ''host'')"
  by (simp add: specCollaborators_def renderPayload_def payloadOf_def exampleWorld_def
      exampleRequest_def exampleEnvs_def renderString_def)

lemma sameKey_fetchedJar: "fetchedJar exampleRoute sameKeyWorld = exampleJar"
  by (simp add: fetchedJar_def getOrCreateForParentId_def exampleRoute_def sameKeyWorld_def
      exampleWorld_def exampleJar_def Let_def)

lemma sameKey_payload:
  "payloadOf (request sameKeyWorld) exampleJar = payloadOf (request exampleWorld) exampleJar"
  by (simp add: payloadOf_def sameKeyWorld_def exampleWorld_def exampleRequest_def)

lemma sameKey_render:
  "render (specCollaborators exampleEnvs) (request sameKeyWorld) ''env_1''
     (payloadOf (request sameKeyWorld) exampleJar) = Inr exampleRendered"
  using example_render by (simp add: sameKey_payload specCollaborators_def)

lemma templated_fetchedJar: "fetchedJar exampleRoute templatedJarWorld = templatedJar"
  by (simp add: fetchedJar_def getOrCreateForParentId_def exampleRoute_def templatedJarWorld_def
      exampleWorld_def)

lemma example_origin: "renderString (exampleEnvs ''env_1'') ''origin'' = Inr ''origin''
    \<and> renderString (exampleEnvs ''env_1'') ''{{host}}'' = Inr ''example.com''"
  by (simp add: renderString_def exampleEnvs_def)

lemma templated_render:
  "render (specCollaborators exampleEnvs) (request templatedJarWorld) ''env_1''
     (payloadOf (request templatedJarWorld) templatedJar)
   = Inr (exampleRendered\<lparr>workspaceCookieJar := renderedTemplatedJar\<rparr>)"
  by (simp add: specCollaborators_def renderPayload_def payloadOf_def templatedJarWorld_def
      exampleWorld_def exampleRequest_def exampleRendered_def renderParameter_def renderPair_def
      example_host example_plain example_origin templatedJar_def renderedTemplatedJar_def)

lemma example_connect:
  "connectCommands (submitEvents (specCollaborators exampleEnvs) exampleRoute
      (exampleProps ''env_1'' False) exampleWorld)
   = [connectParamsOf (specCollaborators exampleEnvs) exampleRendered]"
  using example_render
  by (simp add: submitEvents_eq exampleProps_def example_fetchedJar)

lemma sameKey_connect:
  "connectCommands (submitEvents (specCollaborators exampleEnvs) exampleRoute
      (exampleProps ''env_1'' False) sameKeyWorld)
   = [connectParamsOf (specCollaborators exampleEnvs) exampleRendered]"
  using sameKey_render
  by (simp add: submitEvents_eq exampleProps_def sameKey_fetchedJar)

lemma templated_connect:
  "connectCommands (submitEvents (specCollaborators exampleEnvs) exampleRoute
      (exampleProps ''env_1'' False) templatedJarWorld)
   = [connectParamsOf (specCollaborators exampleEnvs)
        (exampleRendered\<lparr>workspaceCookieJar := renderedTemplatedJar\<rparr>)]"
  using templated_render
  by (simp add: submitEvents_eq exampleProps_def templated_fetchedJar)

lemma example_query: "queryStringOf ''wss://example.com/chat?id=1'' = ''id=1''"
  by (simp add: queryStringOf_def)

subsection \<open>The template engine keeps the flags of the parameters\<close>

lemma renderParameter_disabled:
  "renderParameter env p = Inr q \<Longrightarrow> disabled q = disabled p"
  by (auto simp add: renderParameter_def split: sum.splits)

lemma renderAll_renderParameter_disabled:
  "renderAll (renderParameter env) ps = Inr qs \<Longrightarrow> map disabled qs = map disabled ps"
proof (induction ps arbitrary: qs)
  case Nil
  then show ?case by simp
next
  case (Cons p ps)
  from Cons.prems obtain q where first: "renderParameter env p = Inr q"
    by (cases "renderParameter env p") auto
  from Cons.prems first obtain qs' where rest: "renderAll (renderParameter env) ps = Inr qs'"
    by (cases "renderAll (renderParameter env) ps") auto
  from Cons.prems first rest have "qs = q # qs'"
    by simp
  then show ?case
    using Cons.IH [OF rest] renderParameter_disabled [OF first] by simp
qed

lemma renderPayload_disabled:
  "renderPayload env p = Inr rendered
   \<Longrightarrow> map disabled (Payload.parameters rendered) = map disabled (Payload.parameters p)"
  by (auto simp add: renderPayload_def split: sum.splits dest: renderAll_renderParameter_disabled)

lemma specRender_enabled:
  assumes "render (specCollaborators envs) r env (payloadOf r' jar) = Inr rendered"
  shows "\<forall>q \<in> set (Payload.parameters rendered). \<not> disabled q"
proof -
  have "map disabled (Payload.parameters rendered)
      = map disabled (Payload.parameters (payloadOf r' jar))"
    using assms by (simp add: specCollaborators_def renderPayload_disabled)
  then have "set (map disabled (Payload.parameters rendered))
      = set (map disabled (Payload.parameters (payloadOf r' jar)))"
    by simp
  then have "disabled ` set (Payload.parameters rendered) \<subseteq> {False}"
    by (auto simp add: payloadOf_def)
  then show ?thesis by auto
qed

subsection \<open>Submitting\<close>



text \<open>
  Claim C2. A submit while \<^verbatim>\<open>readyState\<close> is true adds exactly one event to the trace,
  the close command addressed by the identifier of the request, whatever the request holds:
  no connect command and no interpolation.
\<close>

theorem submit_while_open_closes:
  assumes "readyState props"
  shows "trace (handleSubmit c rp props w) = trace w @ [WebSocketClose (id' (request w))]
       \<and> closeCommands (submitEvents c rp props w) = [id' (request w)]
       \<and> connectCommands (submitEvents c rp props w) = []
       \<and> interpolations (submitEvents c rp props w) = []"
  using assms by (simp add: submitEvents_eq handleSubmit_trace)

theorem submit_while_open_closes_witness:
  "readyState (exampleProps ''env_1'' True)
   \<and> trace (handleSubmit (specCollaborators exampleEnvs) exampleRoute (exampleProps ''env_1'' True)
        exampleWorld) = [WebSocketClose ''ws-req_1'']"
proof -
  have isOpen: "readyState (exampleProps ''env_1'' True)"
    by (simp add: exampleProps_def)
  show ?thesis
    using isOpen submit_while_open_closes [OF isOpen, of "specCollaborators exampleEnvs" exampleRoute exampleWorld]
    by (simp add: exampleWorld_def exampleRequest_def)
qed

text \<open>
  Claim C3. A submit while \<^verbatim>\<open>readyState\<close> is false whose interpolation fails dispatches
  no connect and no close command, produces exactly one error report, the one of the failure,
  and leaves the text of the URL field as it was.
\<close>

theorem submit_interpolation_failure:
  assumes "\<not> readyState props"
    and "render c (request w) (environmentId props) (payloadOf (request w) (fetchedJar rp w))
           = Inl err"
  shows "trace (handleSubmit c rp props w) = trace w @ submitEvents c rp props w
       \<and> connectCommands (submitEvents c rp props w) = []
       \<and> closeCommands (submitEvents c rp props w) = []
       \<and> errorReports (submitEvents c rp props w) = [err]
       \<and> urlText (handleSubmit c rp props w) = urlText w"
  using assms by (simp add: submitEvents_eq handleSubmit_trace handleSubmit_frame)

theorem submit_interpolation_failure_witness:
  "\<not> readyState (exampleProps ''env_2'' False)
   \<and> render (specCollaborators exampleEnvs) (request exampleWorld)
        (environmentId (exampleProps ''env_2'' False))
        (payloadOf (request exampleWorld) (fetchedJar exampleRoute exampleWorld))
       = Inl (Unresolved ''host'')
   \<and> connectCommands (submitEvents (specCollaborators exampleEnvs) exampleRoute
        (exampleProps ''env_2'' False) exampleWorld) = []
   \<and> closeCommands (submitEvents (specCollaborators exampleEnvs) exampleRoute
        (exampleProps ''env_2'' False) exampleWorld) = []
   \<and> errorReports (submitEvents (specCollaborators exampleEnvs) exampleRoute
        (exampleProps ''env_2'' False) exampleWorld) = [Unresolved ''host'']
   \<and> urlText (handleSubmit (specCollaborators exampleEnvs) exampleRoute
        (exampleProps ''env_2'' False) exampleWorld) = ''wss://{{host}}/chat''"
proof -
  have closed: "\<not> readyState (exampleProps ''env_2'' False)"
    by (simp add: exampleProps_def)
  have failed: "render (specCollaborators exampleEnvs) (request exampleWorld)
        (environmentId (exampleProps ''env_2'' False))
        (payloadOf (request exampleWorld) (fetchedJar exampleRoute exampleWorld))
       = Inl (Unresolved ''host'')"
    using example_unresolved by (simp add: exampleProps_def example_fetchedJar)
  have field: "urlText exampleWorld = ''wss://{{host}}/chat''"
    by (simp add: exampleWorld_def)
  show ?thesis
    using closed failed field submit_interpolation_failure [OF closed failed]
    by simp
qed

text \<open>
  Claim C8. \<^verbatim>\<open>handleSubmit\<close> does not change the stored request: after the call the
  request object, and so each of its fields, is what it was before, whichever of the close,
  connect and error paths is taken. The collaborators receive the request as a value.
\<close>

theorem submit_leaves_request:
  "request (handleSubmit c rp props w) = request w"
  by (simp add: handleSubmit_frame)

theorem submit_leaves_request_witness:
  "request (handleSubmit (specCollaborators exampleEnvs) exampleRoute
        (exampleProps ''env_1'' True) exampleWorld) = exampleRequest
   \<and> request (handleSubmit (specCollaborators exampleEnvs) exampleRoute
        (exampleProps ''env_1'' False) exampleWorld) = exampleRequest
   \<and> request (handleSubmit (specCollaborators exampleEnvs) exampleRoute
        (exampleProps ''env_2'' False) exampleWorld) = exampleRequest"
  using submit_leaves_request [of "specCollaborators exampleEnvs" exampleRoute
          "exampleProps ''env_1'' True" exampleWorld]
        submit_leaves_request [of "specCollaborators exampleEnvs" exampleRoute
          "exampleProps ''env_1'' False" exampleWorld]
        submit_leaves_request [of "specCollaborators exampleEnvs" exampleRoute
          "exampleProps ''env_2'' False" exampleWorld]
  by (simp add: exampleWorld_def)

subsection \<open>Commands per submit\<close>

text \<open>
  Claim C5, as amended. One submit dispatches at most one command: exactly one close command
  and no connect command when \<^verbatim>\<open>readyState\<close> is true; when it is false, no close command,
  and exactly one connect command if the interpolation succeeds, none if it fails. The kind
  of a dispatched command depends on \<^verbatim>\<open>readyState\<close> alone.
\<close>

theorem at_most_one_command:
  "trace (handleSubmit c rp props w) = trace w @ submitEvents c rp props w
   \<and> closeCommands (submitEvents c rp props w)
       = (if readyState props then [id' (request w)] else [])
   \<and> connectCommands (submitEvents c rp props w)
       = (if readyState props then []
          else case render c (request w) (environmentId props)
                      (payloadOf (request w) (fetchedJar rp w)) of
                 Inl err \<Rightarrow> []
               | Inr rendered \<Rightarrow> [connectParamsOf c rendered])
   \<and> length (closeCommands (submitEvents c rp props w))
       + length (connectCommands (submitEvents c rp props w)) \<le> 1"
  by (simp add: submitEvents_eq handleSubmit_trace split: sum.splits)

theorem at_most_one_command_witness:
  "closeCommands (submitEvents (specCollaborators exampleEnvs) exampleRoute
        (exampleProps ''env_1'' True) exampleWorld) = [''ws-req_1'']
   \<and> connectCommands (submitEvents (specCollaborators exampleEnvs) exampleRoute
        (exampleProps ''env_1'' True) exampleWorld) = []
   \<and> closeCommands (submitEvents (specCollaborators exampleEnvs) exampleRoute
        (exampleProps ''env_1'' False) exampleWorld) = []
   \<and> connectCommands (submitEvents (specCollaborators exampleEnvs) exampleRoute
        (exampleProps ''env_1'' False) exampleWorld)
       = [connectParamsOf (specCollaborators exampleEnvs) exampleRendered]
   \<and> closeCommands (submitEvents (specCollaborators exampleEnvs) exampleRoute
        (exampleProps ''env_2'' False) exampleWorld) = []
   \<and> connectCommands (submitEvents (specCollaborators exampleEnvs) exampleRoute
        (exampleProps ''env_2'' False) exampleWorld) = []"
  using at_most_one_command [of "specCollaborators exampleEnvs" exampleRoute
          "exampleProps ''env_1'' True" exampleWorld]
        at_most_one_command [of "specCollaborators exampleEnvs" exampleRoute
          "exampleProps ''env_1'' False" exampleWorld]
        at_most_one_command [of "specCollaborators exampleEnvs" exampleRoute
          "exampleProps ''env_2'' False" exampleWorld]
        example_render example_unresolved
  by (simp add: exampleProps_def example_fetchedJar example_id)

text \<open>
  Claim C5 as stated asks for exactly one command on every submit. The guard
  \<^verbatim>\<open>rendered && connect(...)\<close> of line 106 dispatches none when the interpolation fails:
  here the environment does not resolve \<^verbatim>\<open>host\<close>.
\<close>

theorem exactly_one_command_counterexample:
  "\<not> readyState (exampleProps ''env_2'' False)
   \<and> connectCommands (submitEvents (specCollaborators exampleEnvs) exampleRoute
        (exampleProps ''env_2'' False) exampleWorld) = []
   \<and> closeCommands (submitEvents (specCollaborators exampleEnvs) exampleRoute
        (exampleProps ''env_2'' False) exampleWorld) = []"
  using example_unresolved
  by (simp add: submitEvents_eq exampleProps_def example_fetchedJar)

subsection \<open>Disabled parameters\<close>

text \<open>
  Claim C4, as amended. On a submit while \<^verbatim>\<open>readyState\<close> is false, the one payload handed
  to the interpolation step carries exactly the parameters of the request whose
  \<^verbatim>\<open>disabled\<close> flag is false, in their order, whatever the collaborators are; the payload
  is the one of the request without its disabled parameters, and the query string of the
  connect command is built from the parameters that the interpolation returns for it
  (line 107 does not filter again). With the interpolation modelled from the spec, which
  resolves the strings of a parameter and keeps its flag, every parameter that the
  query-string builder receives has \<^verbatim>\<open>disabled\<close> false: flag by flag they are the enabled
  parameters of the request. Nothing is said about the key of a disabled parameter: an
  enabled parameter may have the same key.
\<close>

theorem only_enabled_parameters_interpolated:
  assumes "\<not> readyState props"
  shows "interpolations (submitEvents c rp props w) = [payloadOf (request w) (fetchedJar rp w)]
       \<and> Payload.parameters (payloadOf (request w) (fetchedJar rp w))
           = filter (\<lambda>p. \<not> disabled p) (WebSocketRequest.parameters (request w))
       \<and> (\<forall>p \<in> set (Payload.parameters (payloadOf (request w) (fetchedJar rp w))). \<not> disabled p)
       \<and> payloadOf ((request w)\<lparr>WebSocketRequest.parameters :=
                    filter (\<lambda>p. \<not> disabled p) (WebSocketRequest.parameters (request w))\<rparr>)
             (fetchedJar rp w)
           = payloadOf (request w) (fetchedJar rp w)
       \<and> (\<forall>rendered.
             render c (request w) (environmentId props) (payloadOf (request w) (fetchedJar rp w))
               = Inr rendered
             \<longrightarrow> map ConnectActionParams.url (connectCommands (submitEvents c rp props w))
                 = [joinUrlAndQueryString c (Payload.url rendered)
                      (buildQueryStringFromParams c (Payload.parameters rendered))])
       \<and> (\<forall>rendered.
             render (specCollaborators envs) (request w) (environmentId props)
                 (payloadOf (request w) (fetchedJar rp w))
               = Inr rendered
             \<longrightarrow> (\<forall>q \<in> set (Payload.parameters rendered). \<not> disabled q)
               \<and> map disabled (Payload.parameters rendered)
                   = map disabled (filter (\<lambda>p. \<not> disabled p)
                       (WebSocketRequest.parameters (request w)))
               \<and> map ConnectActionParams.url
                     (connectCommands (submitEvents (specCollaborators envs) rp props w))
                   = [specJoinUrlAndQueryString (Payload.url rendered)
                        (specBuildQueryStringFromParams (Payload.parameters rendered))])"
proof -
  have general: "interpolations (submitEvents c rp props w) = [payloadOf (request w) (fetchedJar rp w)]
       \<and> Payload.parameters (payloadOf (request w) (fetchedJar rp w))
           = filter (\<lambda>p. \<not> disabled p) (WebSocketRequest.parameters (request w))
       \<and> (\<forall>p \<in> set (Payload.parameters (payloadOf (request w) (fetchedJar rp w))). \<not> disabled p)
       \<and> payloadOf ((request w)\<lparr>WebSocketRequest.parameters :=
                    filter (\<lambda>p. \<not> disabled p) (WebSocketRequest.parameters (request w))\<rparr>)
             (fetchedJar rp w)
           = payloadOf (request w) (fetchedJar rp w)
       \<and> (\<forall>rendered.
             render c (request w) (environmentId props) (payloadOf (request w) (fetchedJar rp w))
               = Inr rendered
             \<longrightarrow> map ConnectActionParams.url (connectCommands (submitEvents c rp props w))
                 = [joinUrlAndQueryString c (Payload.url rendered)
                      (buildQueryStringFromParams c (Payload.parameters rendered))])"
    using assms
    by (auto simp add: submitEvents_eq payloadOf_def connectParamsOf_def split: sum.splits)
  have spec: "(\<forall>q \<in> set (Payload.parameters rendered). \<not> disabled q)
               \<and> map disabled (Payload.parameters rendered)
                   = map disabled (filter (\<lambda>p. \<not> disabled p)
                       (WebSocketRequest.parameters (request w)))
               \<and> map ConnectActionParams.url
                     (connectCommands (submitEvents (specCollaborators envs) rp props w))
                   = [specJoinUrlAndQueryString (Payload.url rendered)
                        (specBuildQueryStringFromParams (Payload.parameters rendered))]"
    if ok: "render (specCollaborators envs) (request w) (environmentId props)
                 (payloadOf (request w) (fetchedJar rp w)) = Inr rendered" for rendered
  proof -
    have enabled: "\<forall>q \<in> set (Payload.parameters rendered). \<not> disabled q"
      using ok by (rule specRender_enabled)
    have flags: "map disabled (Payload.parameters rendered)
        = map disabled (filter (\<lambda>p. \<not> disabled p) (WebSocketRequest.parameters (request w)))"
      using ok renderPayload_disabled [of "envs (environmentId props)"
          "payloadOf (request w) (fetchedJar rp w)" rendered]
      by (simp add: specCollaborators_def payloadOf_def)
    have sent: "map ConnectActionParams.url
          (connectCommands (submitEvents (specCollaborators envs) rp props w))
        = [specJoinUrlAndQueryString (Payload.url rendered)
             (specBuildQueryStringFromParams (Payload.parameters rendered))]"
      using assms ok
      by (simp add: submitEvents_eq connectParamsOf_def specCollaborators_def)
    show ?thesis using enabled flags sent by blast
  qed
  show ?thesis using general spec by blast
qed


theorem only_enabled_parameters_interpolated_witness:
  "\<not> readyState (exampleProps ''env_1'' False)
   \<and> map Payload.parameters
        (interpolations (submitEvents (specCollaborators exampleEnvs) exampleRoute
           (exampleProps ''env_1'' False) sameKeyWorld))
       = [[\<lparr>key = ''id'', val = ''1'', disabled = False\<rparr>]]
   \<and> render (specCollaborators exampleEnvs) (request sameKeyWorld)
        (environmentId (exampleProps ''env_1'' False))
        (payloadOf (request sameKeyWorld) (fetchedJar exampleRoute sameKeyWorld)) = Inr exampleRendered
   \<and> map disabled (Payload.parameters exampleRendered) = [False]
   \<and> map ConnectActionParams.url
        (connectCommands (submitEvents (specCollaborators exampleEnvs) exampleRoute
           (exampleProps ''env_1'' False) sameKeyWorld)) = [''wss://example.com/chat?id=1'']"
proof -
  have closed: "\<not> readyState (exampleProps ''env_1'' False)"
    by (simp add: exampleProps_def)
  have enabled: "filter (\<lambda>p. \<not> disabled p) (WebSocketRequest.parameters (request sameKeyWorld))
      = [\<lparr>key = ''id'', val = ''1'', disabled = False\<rparr>]"
    by (simp add: sameKeyWorld_def)
  have ok: "render (specCollaborators exampleEnvs) (request sameKeyWorld)
        (environmentId (exampleProps ''env_1'' False))
        (payloadOf (request sameKeyWorld) (fetchedJar exampleRoute sameKeyWorld)) = Inr exampleRendered"
    using sameKey_render by (simp add: exampleProps_def sameKey_fetchedJar)
  note applied = only_enabled_parameters_interpolated [OF closed, of "specCollaborators exampleEnvs"
        exampleRoute sameKeyWorld exampleEnvs]
  have sent: "interpolations (submitEvents (specCollaborators exampleEnvs) exampleRoute
           (exampleProps ''env_1'' False) sameKeyWorld)
      = [payloadOf (request sameKeyWorld) (fetchedJar exampleRoute sameKeyWorld)]"
    using applied by (rule conjunct1)
  have builder: "\<forall>rendered.
         render (specCollaborators exampleEnvs) (request sameKeyWorld)
             (environmentId (exampleProps ''env_1'' False))
             (payloadOf (request sameKeyWorld) (fetchedJar exampleRoute sameKeyWorld))
           = Inr rendered
         \<longrightarrow> (\<forall>q \<in> set (Payload.parameters rendered). \<not> disabled q)
           \<and> map disabled (Payload.parameters rendered)
               = map disabled (filter (\<lambda>p. \<not> disabled p)
                   (WebSocketRequest.parameters (request sameKeyWorld)))
           \<and> map ConnectActionParams.url
                 (connectCommands (submitEvents (specCollaborators exampleEnvs) exampleRoute
                    (exampleProps ''env_1'' False) sameKeyWorld))
               = [specJoinUrlAndQueryString (Payload.url rendered)
                    (specBuildQueryStringFromParams (Payload.parameters rendered))]"
    using applied by (elim conjE)
  note built = builder [THEN spec, THEN mp, OF ok]
  have flags: "map disabled (Payload.parameters exampleRendered) = [False]"
    using built [THEN conjunct2, THEN conjunct1] by (simp add: enabled)
  have address: "map ConnectActionParams.url
        (connectCommands (submitEvents (specCollaborators exampleEnvs) exampleRoute
           (exampleProps ''env_1'' False) sameKeyWorld)) = [''wss://example.com/chat?id=1'']"
    using built [THEN conjunct2, THEN conjunct2]
    by (simp add: exampleRendered_def specJoinUrlAndQueryString_def
        specBuildQueryStringFromParams_def)
  have payload: "map Payload.parameters
        (interpolations (submitEvents (specCollaborators exampleEnvs) exampleRoute
           (exampleProps ''env_1'' False) sameKeyWorld))
       = [[\<lparr>key = ''id'', val = ''1'', disabled = False\<rparr>]]"
    by (simp add: sent payloadOf_def enabled)
  show ?thesis
    using closed payload ok flags address by blast
qed

text \<open>
  Claim C4 as stated says that the key of a disabled parameter never occurs in the query
  string. The filter of line 102 goes by the flag, not by the key: with an enabled
  \<^verbatim>\<open>id=1\<close> and a disabled \<^verbatim>\<open>id=2\<close> the query string is \<^verbatim>\<open>id=1\<close>, which contains
  the key of the disabled parameter.
\<close>

theorem disabled_key_counterexample:
  "\<lparr>key = ''id'', val = ''2'', disabled = True\<rparr>
     \<in> set (WebSocketRequest.parameters (request sameKeyWorld))
   \<and> disabled \<lparr>key = ''id'', val = ''2'', disabled = True\<rparr>
   \<and> map (queryStringOf \<circ> ConnectActionParams.url)
        (connectCommands (submitEvents (specCollaborators exampleEnvs) exampleRoute
           (exampleProps ''env_1'' False) sameKeyWorld)) = [''id=1'']
   \<and> sublist (key \<lparr>key = ''id'', val = ''2'', disabled = True\<rparr>) ''id=1''"
proof -
  have listed: "\<lparr>key = ''id'', val = ''2'', disabled = True\<rparr>
     \<in> set (WebSocketRequest.parameters (request sameKeyWorld))"
    by (simp add: sameKeyWorld_def)
  have found: "sublist ''id'' ''id=1''"
    by (simp add: sublist_Cons_right)
  show ?thesis
    using listed found by (simp add: sameKey_connect example_url example_query)
qed

subsection \<open>What the connect command carries\<close>

text \<open>
  Claim C6, as amended. The jar fetched or created for the workspace goes unmodified into the
  payload of the interpolation step, and the \<^verbatim>\<open>cookieJar\<close> of every dispatched connect
  command is the \<^verbatim>\<open>workspaceCookieJar\<close> of the interpolation's result (line 110). It is the
  fetched jar when the interpolation returns the jar as it was given.
\<close>

theorem cookie_jar_from_rendered:
  assumes "ps \<in> set (connectCommands (submitEvents c rp props w))"
  shows "\<exists>rendered.
           render c (request w) (environmentId props) (payloadOf (request w) (fetchedJar rp w))
             = Inr rendered
           \<and> workspaceCookieJar (payloadOf (request w) (fetchedJar rp w)) = fetchedJar rp w
           \<and> cookieJar ps = workspaceCookieJar rendered"
  using assms
  by (auto simp add: submitEvents_eq payloadOf_def connectParamsOf_def split: if_splits sum.splits)

theorem cookie_jar_from_rendered_witness:
  "connectParamsOf (specCollaborators exampleEnvs) exampleRendered
     \<in> set (connectCommands (submitEvents (specCollaborators exampleEnvs) exampleRoute
           (exampleProps ''env_1'' False) exampleWorld))
   \<and> fetchedJar exampleRoute exampleWorld = exampleJar
   \<and> cookieJar (connectParamsOf (specCollaborators exampleEnvs) exampleRendered) = exampleJar"
proof -
  have sent: "connectParamsOf (specCollaborators exampleEnvs) exampleRendered
     \<in> set (connectCommands (submitEvents (specCollaborators exampleEnvs) exampleRoute
           (exampleProps ''env_1'' False) exampleWorld))"
    by (simp add: example_connect)
  show ?thesis
    using sent cookie_jar_from_rendered [OF sent] example_render
    by (simp add: example_fetchedJar exampleProps_def exampleRendered_def)
qed

text \<open>
  Claim C6 as stated equates the \<^verbatim>\<open>cookieJar\<close> of the command with the jar returned by
  \<^verbatim>\<open>getOrCreateForParentId\<close>. The jar is part of the payload that is rendered (the comment
  at line 92 lists the cookies), so a tag in a cookie is resolved on the way.
\<close>

theorem cookie_jar_counterexample:
  "fetchedJar exampleRoute templatedJarWorld = templatedJar
   \<and> map cookieJar
        (connectCommands (submitEvents (specCollaborators exampleEnvs) exampleRoute
           (exampleProps ''env_1'' False) templatedJarWorld)) = [renderedTemplatedJar]
   \<and> renderedTemplatedJar \<noteq> templatedJar"
  by (simp add: templated_fetchedJar templated_connect connectParamsOf_def
      renderedTemplatedJar_def templatedJar_def)

text \<open>
  Claim C10. The \<^verbatim>\<open>suppressUserAgent\<close> of every dispatched connect command is the
  \<^verbatim>\<open>suppressUserAgent\<close> of the interpolation's result, and the payload handed to the
  interpolation does not depend on the \<^verbatim>\<open>suppressUserAgent\<close> of the request: it has no
  such field. In the witness the request has the flag set and the command has none.
\<close>

theorem suppressUserAgent_from_rendered:
  assumes "ps \<in> set (connectCommands (submitEvents c rp props w))"
  shows "\<exists>rendered.
           render c (request w) (environmentId props) (payloadOf (request w) (fetchedJar rp w))
             = Inr rendered
           \<and> ConnectActionParams.suppressUserAgent ps = Rendered.suppressUserAgent rendered
           \<and> payloadOf ((request w)\<lparr>WebSocketRequest.suppressUserAgent := b\<rparr>) (fetchedJar rp w)
               = payloadOf (request w) (fetchedJar rp w)"
  using assms
  by (auto simp add: submitEvents_eq payloadOf_def connectParamsOf_def split: if_splits sum.splits)

theorem suppressUserAgent_from_rendered_witness:
  "connectParamsOf (specCollaborators exampleEnvs) exampleRendered
     \<in> set (connectCommands (submitEvents (specCollaborators exampleEnvs) exampleRoute
           (exampleProps ''env_1'' False) exampleWorld))
   \<and> WebSocketRequest.suppressUserAgent (request exampleWorld) = True
   \<and> ConnectActionParams.suppressUserAgent
        (connectParamsOf (specCollaborators exampleEnvs) exampleRendered) = None"
proof -
  have sent: "connectParamsOf (specCollaborators exampleEnvs) exampleRendered
     \<in> set (connectCommands (submitEvents (specCollaborators exampleEnvs) exampleRoute
           (exampleProps ''env_1'' False) exampleWorld))"
    by (simp add: example_connect)
  have flag: "WebSocketRequest.suppressUserAgent (request exampleWorld) = True"
    by (simp add: exampleWorld_def exampleRequest_def)
  show ?thesis
    using sent flag suppressUserAgent_from_rendered [OF sent, of True] example_render
    by (simp add: example_fetchedJar exampleProps_def exampleRendered_def)
qed

subsection \<open>The URL editor\<close>

text \<open>
  Claim C7. An edit of the URL field adds exactly one event to the trace, the call of the
  owner's \<^verbatim>\<open>onChange\<close> with the raw new text: no interpolation, no connect command and no
  close command. In the witness the text keeps its unresolved tag.
\<close>

theorem url_edit_forwards_raw_text:
  "trace (onUrlTextChange newText w) = trace w @ [OnChange newText]
   \<and> issued w (onUrlTextChange newText w) = [OnChange newText]
   \<and> interpolations (issued w (onUrlTextChange newText w)) = []
   \<and> connectCommands (issued w (onUrlTextChange newText w)) = []
   \<and> closeCommands (issued w (onUrlTextChange newText w)) = []"
  by (simp add: onUrlTextChange_def issued_def emit_def)

theorem url_edit_forwards_raw_text_witness:
  "trace (onUrlTextChange ''wss://{{host}}/v2'' exampleWorld) = [OnChange ''wss://{{host}}/v2'']"
  using url_edit_forwards_raw_text [of "''wss://{{host}}/v2''" exampleWorld]
  by (simp add: exampleWorld_def)

text \<open>The editor is rendered read-only exactly when \<^verbatim>\<open>readyState\<close> is true (line 159).\<close>

lemma editor_readOnly: "readOnly (editor (WebSocketActionBar props w)) = readyState props"
  by (simp add: WebSocketActionBar_def Let_def)

end
